theory Spec2Isabelle
  imports Complex_Main
begin

section \<open>The breast-cancer notebook as a functional program\<close>

text \<open>
  The notebook \<^verbatim>\<open>Breast_Cancer_ML_Project.ipynb\<close> is a straight line of five code
  cells: load the dataset into a data frame, report on it, split and standardise,
  train three classifiers, select the best one. Each cell is a function here; a raised
  exception is the \<open>Inl\<close> of a sum, floats are idealised as real numbers, and the
  notebook's global variables are the fields of the records the cells return.

  Library calls are of two kinds. Those whose result is fixed by their arguments
  (\<^verbatim>\<open>train_test_split\<close>'s sizes, \<^verbatim>\<open>StandardScaler\<close>, \<^verbatim>\<open>accuracy_score\<close>) are
  written out. Those whose result is opaque to the notebook (the generator's
  permutation, each classifier's \<^verbatim>\<open>fit\<close> and \<^verbatim>\<open>predict\<close>) are the fields of a
  record \<open>sklearn\<close> that every cell takes as its first argument.
\<close>

subsection \<open>Python values: exceptions, dictionaries, max\<close>

datatype exn = ValueError | KeyError | TypeError | IndexError | NotFittedError
  | LibraryError string

type_synonym ('k, 'v) dict = "('k \<times> 'v) list"

text \<open>A dictionary keeps its keys in insertion order; \<^verbatim>\<open>d[k] = v\<close> overwrites in place.\<close>

fun dict_set :: "('k, 'v) dict \<Rightarrow> 'k \<Rightarrow> 'v \<Rightarrow> ('k, 'v) dict" where
  "dict_set [] k v = [(k, v)]"
| "dict_set ((k', v') # d) k v =
     (if k' = k then (k, v) # d else (k', v') # dict_set d k v)"

definition dict_get :: "('k, 'v) dict \<Rightarrow> 'k \<Rightarrow> 'v option" where
  "dict_get d k = map_of d k"

definition dict_getitem :: "('k, 'v) dict \<Rightarrow> 'k \<Rightarrow> exn + 'v" where
  "dict_getitem d k = (case map_of d k of None \<Rightarrow> Inl KeyError | Some v \<Rightarrow> Inr v)"

definition dict_keys :: "('k, 'v) dict \<Rightarrow> 'k list" where
  "dict_keys d = map fst d"

text \<open>
  \<^verbatim>\<open>max(iterable, key=f)\<close>: the running best is replaced only by an item whose key is
  strictly greater, so the first of several maximal items wins. A key that is
  \<^verbatim>\<open>None\<close> (here: \<^verbatim>\<open>dict.get\<close> on a missing key) does not compare with a float and
  raises \<^verbatim>\<open>TypeError\<close>; an empty iterable raises \<^verbatim>\<open>ValueError\<close>.
\<close>

fun max_from :: "('k \<Rightarrow> 'v::linorder option) \<Rightarrow> 'k \<Rightarrow> 'k list \<Rightarrow> exn + 'k" where
  "max_from key best [] = Inr best"
| "max_from key best (x # xs) =
     (case (key x, key best) of
        (Some vx, Some vb) \<Rightarrow> max_from key (if vb < vx then x else best) xs
      | _ \<Rightarrow> Inl TypeError)"

definition py_max :: "'k list \<Rightarrow> ('k \<Rightarrow> 'v::linorder option) \<Rightarrow> exn + 'k" where
  "py_max xs key = (case xs of [] \<Rightarrow> Inl ValueError | x # rest \<Rightarrow> max_from key x rest)"

subsection \<open>Cell 1: the dataset and its data frame\<close>

text \<open>
  \<^verbatim>\<open>load_breast_cancer()\<close> returns a bunch of a feature matrix, the feature names and
  the labels. The bundled data is not part of the notebook: it is the argument of the run.
\<close>

record bunch =
  data :: "real list list"
  feature_names :: "string list"
  target :: "real list"

record dataframe =
  columns :: "string list"
  rows :: "real list list"

definition DataFrame :: "real list list \<Rightarrow> string list \<Rightarrow> exn + dataframe" where
  "DataFrame d cols =
     (if list_all (\<lambda>r. length r = length cols) d
      then Inr \<lparr>columns = cols, rows = d\<rparr> else Inl ValueError)"

text \<open>\<^verbatim>\<open>df[name] = vals\<close>: a new label is appended as the last column, an old one is overwritten.\<close>

definition setitem :: "dataframe \<Rightarrow> string \<Rightarrow> real list \<Rightarrow> exn + dataframe" where
  "setitem df name vals =
     (if length vals \<noteq> length (rows df) then Inl ValueError
      else if name \<in> set (columns df)
      then Inr (df\<lparr>rows := map2 (\<lambda>r v. map2 (\<lambda>c x. if c = name then v else x) (columns df) r)
                              (rows df) vals\<rparr>)
      else Inr \<lparr>columns = columns df @ [name],
                rows = map2 (\<lambda>r v. r @ [v]) (rows df) vals\<rparr>)"

text \<open>\<^verbatim>\<open>df[name]\<close> for a label that names one column; a missing label raises \<^verbatim>\<open>KeyError\<close>.\<close>

fun index_of :: "'a \<Rightarrow> 'a list \<Rightarrow> nat" where
  "index_of a [] = 0"
| "index_of a (x # xs) = (if x = a then 0 else Suc (index_of a xs))"

definition getitem :: "dataframe \<Rightarrow> string \<Rightarrow> exn + real list" where
  "getitem df name =
     (if name \<in> set (columns df)
      then Inr (map (\<lambda>r. r ! index_of name (columns df)) (rows df))
      else Inl KeyError)"

definition drop_columns :: "dataframe \<Rightarrow> string list \<Rightarrow> exn + dataframe" where
  "drop_columns df names =
     (if list_all (\<lambda>n. n \<in> set (columns df)) names
      then Inr \<lparr>columns = filter (\<lambda>c. c \<notin> set names) (columns df),
                rows = map (\<lambda>r. map snd (filter (\<lambda>(c, x). c \<notin> set names) (zip (columns df) r)))
                           (rows df)\<rparr>
      else Inl KeyError)"

definition load_cell :: "bunch \<Rightarrow> exn + dataframe" where
  "load_cell ds =
     (case DataFrame (data ds) (feature_names ds) of
        Inl e \<Rightarrow> Inl e
      | Inr df \<Rightarrow> setitem df ''target'' (target ds))"

subsection \<open>Cell 2: the pairwise plot\<close>

text \<open>
  Of the reporting cell only the call
  \<^verbatim>\<open>sns.pairplot(df, vars=df.columns[:5], hue="target", diag_kind="kde")\<close>
  is modelled, by the arguments it passes. A slice never raises: it stops at the end.
\<close>

record pairplot_call =
  vars :: "string list"
  hue :: string
  diag_kind :: string

definition eda_pairplot :: "dataframe \<Rightarrow> pairplot_call" where
  "eda_pairplot df = \<lparr>vars = take 5 (columns df), hue = ''target'', diag_kind = ''kde''\<rparr>"

subsection \<open>The library's random state\<close>

text \<open>
  \<^verbatim>\<open>random_state=None\<close> makes a library call draw from the process-wide generator,
  whose state differs from run to run; an integer seeds a fresh generator.
\<close>

datatype rng = RandomState int | GlobalRandomState nat

definition check_random_state :: "int option \<Rightarrow> nat \<Rightarrow> rng" where
  "check_random_state seed global_state =
     (case seed of None \<Rightarrow> GlobalRandomState global_state | Some s \<Rightarrow> RandomState s)"

datatype estimator_class = RandomForestClassifier | LogisticRegression | SVC

record estimator =
  cls :: estimator_class
  kwargs :: "(string \<times> int) list"

text \<open>The calls whose results the notebook cannot see into.\<close>

record 'm sklearn =
  permutation :: "rng \<Rightarrow> nat \<Rightarrow> nat list"
  fit :: "estimator_class \<Rightarrow> (string \<times> int) list \<Rightarrow> rng \<Rightarrow> real list list \<Rightarrow> real list
            \<Rightarrow> exn + 'm"
  predict :: "'m \<Rightarrow> real list list \<Rightarrow> exn + real list"

subsection \<open>Cell 3: split and standardise\<close>

text \<open>
  Modelled from the spec: \<^verbatim>\<open>train_test_split\<close> is library code
  (\<^verbatim>\<open>sklearn.model_selection\<close>), absent from the sources. The spec gives a seeded
  partition of the rows into a test part of the fraction \<^verbatim>\<open>test_size\<close> and a train part
  of the rest, features and labels indexed alike. The rounding is the library's: the
  test part has \<open>\<lceil>test_size * n\<rceil>\<close> rows, the first of the generator's permutation of
  the row indices; an empty train part, a fraction outside \<open>(0, 1)\<close> and arrays of
  different lengths raise \<^verbatim>\<open>ValueError\<close>.
\<close>

definition validate_shuffle_split :: "nat \<Rightarrow> real \<Rightarrow> exn + nat \<times> nat" where
  "validate_shuffle_split n_samples test_size =
     (if test_size \<le> 0 \<or> 1 \<le> test_size then Inl ValueError
      else let n_test = nat \<lceil>test_size * real n_samples\<rceil>;
               n_train = n_samples - n_test
           in if n_train = 0 then Inl ValueError else Inr (n_train, n_test))"

definition safe_indexing :: "'a list \<Rightarrow> nat list \<Rightarrow> exn + 'a list" where
  "safe_indexing xs idx =
     (if list_all (\<lambda>i. i < length xs) idx then Inr (map (\<lambda>i. xs ! i) idx) else Inl IndexError)"

definition shuffle_split :: "'m sklearn \<Rightarrow> nat \<Rightarrow> real \<Rightarrow> int option \<Rightarrow> nat
    \<Rightarrow> exn + nat list \<times> nat list" where
  "shuffle_split L n_samples test_size random_state global_state =
     (case validate_shuffle_split n_samples test_size of
        Inl e \<Rightarrow> Inl e
      | Inr (n_train, n_test) \<Rightarrow>
          let p = permutation L (check_random_state random_state global_state) n_samples
          in Inr (take n_train (drop n_test p), take n_test p))"

definition train_test_split :: "'m sklearn \<Rightarrow> real list list \<Rightarrow> real list \<Rightarrow> real \<Rightarrow> int option
    \<Rightarrow> nat \<Rightarrow> exn + real list list \<times> real list list \<times> real list \<times> real list" where
  "train_test_split L X y test_size random_state global_state =
     (if length X \<noteq> length y then Inl ValueError
      else case shuffle_split L (length X) test_size random_state global_state of
        Inl e \<Rightarrow> Inl e
      | Inr (train, test) \<Rightarrow>
          (case (safe_indexing X train, safe_indexing X test,
                 safe_indexing y train, safe_indexing y test) of
             (Inr X_train, Inr X_test, Inr y_train, Inr y_test) \<Rightarrow>
               Inr (X_train, X_test, y_train, y_test)
           | _ \<Rightarrow> Inl IndexError))"

text \<open>
  Modelled from the spec: \<^verbatim>\<open>StandardScaler\<close> is library code
  (\<^verbatim>\<open>sklearn.preprocessing\<close>), absent from the sources. The spec gives the transform:
  per feature, subtract the mean and divide by the standard deviation of the rows it
  was fitted on. The statistics are the library's: the variance is the population
  variance, and the scale of a feature that the library takes for constant is \<open>1\<close>
  (the library documents that such a feature is left as it is, with a scaling factor
  of 1), where the spec expects a division by zero. A feature is taken for constant
  when its variance is at most the error bound of the variance computation,
  \<open>n * eps * var + (n * mean * eps)\<^sup>2\<close> with \<open>eps\<close> the machine epsilon of a 64-bit float;
  a variance of zero always is. Fitting needs at least one row and one feature, and
  transforming needs a fitted scaler and rows of the fitted width.
  The fields of \<open>scaler_params\<close> are the attributes \<^verbatim>\<open>mean_\<close>, \<^verbatim>\<open>var_\<close>,
  \<^verbatim>\<open>scale_\<close> and \<^verbatim>\<open>n_samples_seen_\<close> of a fitted scaler.
\<close>

record scaler_params =
  fitted_mean :: "real list"
  fitted_var :: "real list"
  fitted_scale :: "real list"
  n_samples_seen :: nat

type_synonym StandardScaler = "scaler_params option"

definition column :: "real list list \<Rightarrow> nat \<Rightarrow> real list" where
  "column X j = map (\<lambda>r. r ! j) X"

definition mean :: "real list \<Rightarrow> real" where
  "mean xs = sum_list xs / real (length xs)"

definition variance :: "real list \<Rightarrow> real" where
  "variance xs = sum_list (map (\<lambda>x. (x - mean xs)\<^sup>2) xs) / real (length xs)"

definition float_eps :: real where
  "float_eps = 1 / 2 ^ 52"

definition is_constant_feature :: "real \<Rightarrow> real \<Rightarrow> nat \<Rightarrow> bool" where
  "is_constant_feature var mu n_samples =
     (var \<le> real n_samples * float_eps * var + (real n_samples * mu * float_eps)\<^sup>2)"

definition handle_zeros_in_scale :: "real list \<Rightarrow> bool list \<Rightarrow> real list" where
  "handle_zeros_in_scale scale constant_mask =
     map2 (\<lambda>s c. if c then 1 else s) scale constant_mask"

definition check_array :: "real list list \<Rightarrow> exn + nat" where
  "check_array X =
     (case X of
        [] \<Rightarrow> Inl ValueError
      | r # _ \<Rightarrow> if length r = 0 \<or> \<not> list_all (\<lambda>r'. length r' = length r) X
                 then Inl ValueError else Inr (length r))"

definition scaler_fit :: "real list list \<Rightarrow> exn + scaler_params" where
  "scaler_fit X =
     (case check_array X of
        Inl e \<Rightarrow> Inl e
      | Inr n_features \<Rightarrow>
          let cols = map (column X) [0..<n_features];
              m = map mean cols;
              v = map variance cols;
              constant_mask = map2 (\<lambda>var mu. is_constant_feature var mu (length X)) v m
          in Inr \<lparr>fitted_mean = m, fitted_var = v,
                  fitted_scale = handle_zeros_in_scale (map sqrt v) constant_mask,
                  n_samples_seen = length X\<rparr>)"

definition scaler_transform :: "StandardScaler \<Rightarrow> real list list \<Rightarrow> exn + real list list" where
  "scaler_transform scaler X =
     (case scaler of
        None \<Rightarrow> Inl NotFittedError
      | Some p \<Rightarrow>
          if list_all (\<lambda>r. length r = length (fitted_mean p)) X
          then Inr (map (\<lambda>r. map (\<lambda>(x, m, s). (x - m) / s) (zip r (zip (fitted_mean p) (fitted_scale p)))) X)
          else Inl ValueError)"

text \<open>\<^verbatim>\<open>fit_transform\<close> refits the scaler object and returns it with the scaled rows.\<close>

definition scaler_fit_transform :: "StandardScaler \<Rightarrow> real list list
    \<Rightarrow> exn + StandardScaler \<times> real list list" where
  "scaler_fit_transform scaler X =
     (case scaler_fit X of
        Inl e \<Rightarrow> Inl e
      | Inr p \<Rightarrow> (case scaler_transform (Some p) X of
                    Inl e \<Rightarrow> Inl e
                  | Inr Xs \<Rightarrow> Inr (Some p, Xs)))"

record prepared =
  X_train :: "real list list"
  X_test :: "real list list"
  y_train :: "real list"
  y_test :: "real list"
  scaler :: StandardScaler
  X_train_scaled :: "real list list"
  X_test_scaled :: "real list list"

definition feature_engineering :: "'m sklearn \<Rightarrow> nat \<Rightarrow> real list list \<Rightarrow> real list
    \<Rightarrow> exn + prepared" where
  "feature_engineering L global_state X y =
     (case train_test_split L X y 0.2 (Some 42) global_state of
        Inl e \<Rightarrow> Inl e
      | Inr (Xtr, Xte, ytr, yte) \<Rightarrow>
          (case scaler_fit_transform None Xtr of
             Inl e \<Rightarrow> Inl e
           | Inr (sc, Xtr_scaled) \<Rightarrow>
               (case scaler_transform sc Xte of
                  Inl e \<Rightarrow> Inl e
                | Inr Xte_scaled \<Rightarrow>
                    Inr \<lparr>X_train = Xtr, X_test = Xte, y_train = ytr, y_test = yte,
                         scaler = sc, X_train_scaled = Xtr_scaled,
                         X_test_scaled = Xte_scaled\<rparr>)))"

subsection \<open>Cell 4: train and score the three models\<close>

definition models :: "(string, estimator) dict" where
  "models =
     [(''Random Forest'', \<lparr>cls = RandomForestClassifier, kwargs = [(''random_state'', 42)]\<rparr>),
      (''Logistic Regression'',
         \<lparr>cls = LogisticRegression, kwargs = [(''max_iter'', 1000), (''random_state'', 42)]\<rparr>),
      (''Support Vector Machine'', \<lparr>cls = SVC, kwargs = [(''random_state'', 42)]\<rparr>)]"

text \<open>
  The library's default of the one other keyword the notebook passes,
  \<^verbatim>\<open>LogisticRegression(max_iter=100)\<close>; \<^verbatim>\<open>random_state\<close> defaults to \<^verbatim>\<open>None\<close>.
\<close>

definition default_max_iter :: int where
  "default_max_iter = 100"

text \<open>
  An estimator resolves its \<^verbatim>\<open>random_state\<close> keyword when it is fitted; the other
  keywords are its hyperparameters.
\<close>

definition estimator_fit :: "'m sklearn \<Rightarrow> nat \<Rightarrow> estimator \<Rightarrow> real list list \<Rightarrow> real list
    \<Rightarrow> exn + 'm" where
  "estimator_fit L global_state est X y =
     fit L (cls est) (filter (\<lambda>(k, v). k \<noteq> ''random_state'') (kwargs est))
       (check_random_state (map_of (kwargs est) ''random_state'') global_state) X y"

text \<open>
  Modelled from the spec: \<^verbatim>\<open>accuracy_score\<close> is library code
  (\<^verbatim>\<open>sklearn.metrics\<close>), absent from the sources. The spec gives the fraction of test
  rows whose predicted label is the true label; the library computes it as the average
  of the row-wise indicator of equality and raises \<^verbatim>\<open>ValueError\<close> for label arrays of
  different lengths. No labels at all is reported as \<^verbatim>\<open>ValueError\<close> here (the
  library's average of nothing is not a number); a split never produces that case.
\<close>

definition accuracy_score :: "real list \<Rightarrow> real list \<Rightarrow> exn + real" where
  "accuracy_score y_true y_pred =
     (if length y_true \<noteq> length y_pred \<or> y_true = [] then Inl ValueError
      else Inr (sum_list (map2 (\<lambda>t p. if t = p then 1 else 0) y_true y_pred)
                / real (length y_true)))"

text \<open>
  The library calls of the loop are logged, and of the printed output the accuracy lines
  and the final sentence are kept, each with its number as it is (the notebook prints
  it with four decimals).
\<close>

datatype call = Fit string | Predict string | Score string

datatype printed = AccuracyLine string real | BestModelLine string real

record training =
  accuracies :: "(string, real) dict"
  calls :: "call list"
  stdout :: "printed list"

text \<open>
  One pass of the loop body. The record is the state the pass leaves behind, also when
  it raises: the calls made so far, the lines printed so far, the accuracies stored.
\<close>

definition loop_body :: "'m sklearn \<Rightarrow> nat \<Rightarrow> prepared \<Rightarrow> string \<Rightarrow> estimator \<Rightarrow> training
    \<Rightarrow> exn option \<times> training" where
  "loop_body L global_state p name model t =
     (let t1 = t\<lparr>calls := calls t @ [Fit name]\<rparr> in
      case estimator_fit L global_state model (X_train_scaled p) (y_train p) of
        Inl e \<Rightarrow> (Some e, t1)
      | Inr fitted \<Rightarrow>
          let t2 = t1\<lparr>calls := calls t1 @ [Predict name]\<rparr> in
          (case predict L fitted (X_test_scaled p) of
             Inl e \<Rightarrow> (Some e, t2)
           | Inr predictions \<Rightarrow>
               let t3 = t2\<lparr>calls := calls t2 @ [Score name]\<rparr> in
               (case accuracy_score (y_test p) predictions of
                  Inl e \<Rightarrow> (Some e, t3)
                | Inr accuracy \<Rightarrow>
                    (None, t3\<lparr>accuracies := dict_set (accuracies t3) name accuracy,
                              stdout := stdout t3 @ [AccuracyLine name accuracy]\<rparr>))))"

fun for_loop :: "'m sklearn \<Rightarrow> nat \<Rightarrow> prepared \<Rightarrow> (string, estimator) dict \<Rightarrow> training
    \<Rightarrow> exn option \<times> training" where
  "for_loop L global_state p [] t = (None, t)"
| "for_loop L global_state p ((name, model) # rest) t =
     (case loop_body L global_state p name model t of
        (Some e, t') \<Rightarrow> (Some e, t')
      | (None, t') \<Rightarrow> for_loop L global_state p rest t')"

definition model_training :: "'m sklearn \<Rightarrow> nat \<Rightarrow> prepared \<Rightarrow> exn option \<times> training" where
  "model_training L global_state p =
     for_loop L global_state p models \<lparr>accuracies = [], calls = [], stdout = []\<rparr>"

subsection \<open>Cell 5: select the best model\<close>

definition model_selection :: "(string, real) dict \<Rightarrow> exn + string \<times> real" where
  "model_selection accs =
     (case py_max (dict_keys accs) (dict_get accs) of
        Inl e \<Rightarrow> Inl e
      | Inr best_model_name \<Rightarrow>
          (case dict_getitem accs best_model_name of
             Inl e \<Rightarrow> Inl e
           | Inr best_model_accuracy \<Rightarrow> Inr (best_model_name, best_model_accuracy)))"

subsection \<open>The whole notebook\<close>

text \<open>
  The cells run in order and the first exception ends the run. The record is what the
  run leaves behind: the exception if one was raised, and the value of each stage that
  was reached.
\<close>

record run =
  raised :: "exn option"
  pairplot :: "pairplot_call option"
  prep :: "prepared option"
  trained :: "training option"
  best :: "(string \<times> real) option"
  report :: "printed list"

definition no_run :: run where
  "no_run = \<lparr>raised = None, pairplot = None, prep = None, trained = None, best = None,
             report = []\<rparr>"

definition training_and_selection :: "'m sklearn \<Rightarrow> nat \<Rightarrow> prepared \<Rightarrow> run \<Rightarrow> run" where
  "training_and_selection L global_state p r =
     (case model_training L global_state p of
        (Some e, t) \<Rightarrow> r\<lparr>raised := Some e, prep := Some p, trained := Some t,
                          report := stdout t\<rparr>
      | (None, t) \<Rightarrow>
          (case model_selection (accuracies t) of
             Inl e \<Rightarrow> r\<lparr>raised := Some e, prep := Some p, trained := Some t,
                         report := stdout t\<rparr>
           | Inr (name, acc) \<Rightarrow>
               r\<lparr>prep := Some p, trained := Some t, best := Some (name, acc),
                 report := stdout t @ [BestModelLine name acc]\<rparr>))"

definition notebook :: "'m sklearn \<Rightarrow> nat \<Rightarrow> bunch \<Rightarrow> run" where
  "notebook L global_state ds =
     (case load_cell ds of
        Inl e \<Rightarrow> no_run\<lparr>raised := Some e\<rparr>
      | Inr df \<Rightarrow>
          let r1 = no_run\<lparr>pairplot := Some (eda_pairplot df)\<rparr> in
          (case drop_columns df [''target''] of
             Inl e \<Rightarrow> r1\<lparr>raised := Some e\<rparr>
           | Inr Xdf \<Rightarrow>
               (case getitem df ''target'' of
                  Inl e \<Rightarrow> r1\<lparr>raised := Some e\<rparr>
                | Inr y \<Rightarrow>
                    (case feature_engineering L global_state (rows Xdf) y of
                       Inl e \<Rightarrow> r1\<lparr>raised := Some e\<rparr>
                     | Inr p \<Rightarrow> training_and_selection L global_state p r1))))"

subsection \<open>A small run\<close>

text \<open>
  Ten rows of six features, the third one constant on the train part, and a library
  whose permutation reverses the indices: the rows 9 and 8 are the test part. Its three
  classifiers predict from the sign of the first scaled feature, always 1, and always 0.
\<close>

definition demo_sklearn :: "estimator_class sklearn" where
  "demo_sklearn =
     \<lparr>permutation = (\<lambda>r n. rev [0..<n]),
      fit = (\<lambda>c kw r X y. Inr c),
      predict = (\<lambda>m X. Inr (map (\<lambda>r. case m of
                   RandomForestClassifier \<Rightarrow> if 0 < sum_list (take 1 r) then 1 else 0
                 | LogisticRegression \<Rightarrow> 1
                 | SVC \<Rightarrow> 0) X))\<rparr>"

definition demo_bunch :: bunch where
  "demo_bunch =
     \<lparr>data = [[1, 2, 7, 1, 2, 1], [3, 6, 7, 3, 6, 3], [1, 2, 7, 1, 2, 1], [3, 6, 7, 3, 6, 3],
              [1, 2, 7, 1, 2, 1], [3, 6, 7, 3, 6, 3], [1, 2, 7, 1, 2, 1], [3, 6, 7, 3, 6, 3],
              [4, 8, 7, 4, 8, 4], [2, 0, 9, 2, 0, 2]],
      feature_names = [''mean radius'', ''mean texture'', ''mean perimeter'', ''mean area'',
                       ''mean smoothness'', ''mean compactness''],
      target = [0, 1, 0, 1, 0, 1, 0, 1, 0, 1]\<rparr>"

definition demo_scaler :: scaler_params where
  "demo_scaler =
     \<lparr>fitted_mean = [2, 4, 7, 2, 4, 2], fitted_var = [1, 4, 0, 1, 4, 1],
      fitted_scale = [1, 2, 1, 1, 2, 1], n_samples_seen = 8\<rparr>"

definition demo_prepared :: prepared where
  "demo_prepared =
     \<lparr>X_train = [[3, 6, 7, 3, 6, 3], [1, 2, 7, 1, 2, 1], [3, 6, 7, 3, 6, 3], [1, 2, 7, 1, 2, 1],
                 [3, 6, 7, 3, 6, 3], [1, 2, 7, 1, 2, 1], [3, 6, 7, 3, 6, 3], [1, 2, 7, 1, 2, 1]],
      X_test = [[2, 0, 9, 2, 0, 2], [4, 8, 7, 4, 8, 4]],
      y_train = [1, 0, 1, 0, 1, 0, 1, 0],
      y_test = [1, 0],
      scaler = Some demo_scaler,
      X_train_scaled = [[1, 1, 0, 1, 1, 1], [-1, -1, 0, -1, -1, -1], [1, 1, 0, 1, 1, 1],
                        [-1, -1, 0, -1, -1, -1], [1, 1, 0, 1, 1, 1], [-1, -1, 0, -1, -1, -1],
                        [1, 1, 0, 1, 1, 1], [-1, -1, 0, -1, -1, -1]],
      X_test_scaled = [[0, -2, 2, 0, -2, 0], [2, 2, 0, 2, 2, 2]]\<rparr>"

definition demo_training :: training where
  "demo_training =
     \<lparr>accuracies = [(''Random Forest'', 0), (''Logistic Regression'', 1 / 2),
                     (''Support Vector Machine'', 1 / 2)],
      calls = [Fit ''Random Forest'', Predict ''Random Forest'', Score ''Random Forest'',
               Fit ''Logistic Regression'', Predict ''Logistic Regression'',
               Score ''Logistic Regression'',
               Fit ''Support Vector Machine'', Predict ''Support Vector Machine'',
               Score ''Support Vector Machine''],
      stdout = [AccuracyLine ''Random Forest'' 0, AccuracyLine ''Logistic Regression'' (1 / 2),
                AccuracyLine ''Support Vector Machine'' (1 / 2)]\<rparr>"

text \<open>
  The data frame of the small run, what the run leaves behind, a second dataset that
  differs from the first on the two test rows only, and a library whose logistic
  regression fails to fit, with the state of the loop after its first pass.
\<close>

definition demo_frame :: dataframe where
  "demo_frame =
     \<lparr>columns = [''mean radius'', ''mean texture'', ''mean perimeter'', ''mean area'',
                 ''mean smoothness'', ''mean compactness'', ''target''],
      rows = [[1, 2, 7, 1, 2, 1, 0], [3, 6, 7, 3, 6, 3, 1], [1, 2, 7, 1, 2, 1, 0],
              [3, 6, 7, 3, 6, 3, 1], [1, 2, 7, 1, 2, 1, 0], [3, 6, 7, 3, 6, 3, 1],
              [1, 2, 7, 1, 2, 1, 0], [3, 6, 7, 3, 6, 3, 1], [4, 8, 7, 4, 8, 4, 0],
              [2, 0, 9, 2, 0, 2, 1]]\<rparr>"

definition demo_run :: run where
  "demo_run =
     \<lparr>raised = None,
      pairplot = Some \<lparr>vars = [''mean radius'', ''mean texture'', ''mean perimeter'', ''mean area'',
                      ''mean smoothness''],
             hue = ''target'', diag_kind = ''kde''\<rparr>,
      prep = Some demo_prepared,
      trained = Some demo_training,
      best = Some (''Logistic Regression'', 1 / 2),
      report = [AccuracyLine ''Random Forest'' 0, AccuracyLine ''Logistic Regression'' (1 / 2),
                AccuracyLine ''Support Vector Machine'' (1 / 2),
                BestModelLine ''Logistic Regression'' (1 / 2)]\<rparr>"

definition demo_other_data :: "real list list" where
  "demo_other_data = take 8 (data demo_bunch) @ [[0, 0, 0, 0, 0, 0], [5, 5, 5, 5, 5, 5]]"

definition demo_other_prepared :: prepared where
  "demo_other_prepared =
     demo_prepared\<lparr>X_test := [[5, 5, 5, 5, 5, 5], [0, 0, 0, 0, 0, 0]],
                    X_test_scaled := [[3, 1 / 2, -2, 3, 1 / 2, 3], [-2, -2, -7, -2, -2, -2]]\<rparr>"

definition failing_sklearn :: "estimator_class sklearn" where
  "failing_sklearn =
     demo_sklearn\<lparr>fit := (\<lambda>c kw r X y. if c = LogisticRegression
                                        then Inl (LibraryError ''ConvergenceError'') else Inr c)\<rparr>"

definition demo_first_pass :: training where
  "demo_first_pass =
     \<lparr>accuracies = [(''Random Forest'', 0)],
      calls = [Fit ''Random Forest'', Predict ''Random Forest'', Score ''Random Forest''],
      stdout = [AccuracyLine ''Random Forest'' 0]\<rparr>"

section \<open>Properties\<close>

subsection \<open>The small run, evaluated\<close>

lemma demo_split:
  "train_test_split demo_sklearn (data demo_bunch) (target demo_bunch) 0.2 (Some 42) gs
     = Inr (X_train demo_prepared, X_test demo_prepared,
            y_train demo_prepared, y_test demo_prepared)"
  by (simp add: train_test_split_def shuffle_split_def validate_shuffle_split_def
      safe_indexing_def demo_sklearn_def demo_bunch_def demo_prepared_def
      check_random_state_def upt_rec[of _ "numeral _"] upt_rec[of _ "Suc _"])

lemma demo_fit: "scaler_fit (X_train demo_prepared) = Inr demo_scaler"
  by (simp add: scaler_fit_def check_array_def demo_prepared_def demo_scaler_def column_def
      mean_def variance_def handle_zeros_in_scale_def is_constant_feature_def float_eps_def
      upt_rec[of _ "numeral _"] upt_rec[of _ "Suc _"] power2_eq_square)

lemma demo_transform_train:
  "scaler_transform (Some demo_scaler) (X_train demo_prepared) = Inr (X_train_scaled demo_prepared)"
  by (simp add: scaler_transform_def demo_prepared_def demo_scaler_def)

lemma demo_transform_test:
  "scaler_transform (Some demo_scaler) (X_test demo_prepared) = Inr (X_test_scaled demo_prepared)"
  by (simp add: scaler_transform_def demo_prepared_def demo_scaler_def)

lemma demo_feature_engineering:
  "feature_engineering demo_sklearn gs (data demo_bunch) (target demo_bunch) = Inr demo_prepared"
  by (simp add: feature_engineering_def demo_split[simplified] scaler_fit_transform_def demo_fit
      demo_transform_train demo_transform_test)
     (simp add: demo_prepared_def)

lemma demo_other_feature_engineering:
  "feature_engineering demo_sklearn gs demo_other_data (target demo_bunch) = Inr demo_other_prepared"
proof -
  have sp: "train_test_split demo_sklearn demo_other_data (target demo_bunch) 0.2 (Some 42) gs
     = Inr (X_train demo_prepared, X_test demo_other_prepared, y_train demo_prepared,
            y_test demo_prepared)"
    by (simp add: train_test_split_def shuffle_split_def validate_shuffle_split_def
        safe_indexing_def demo_sklearn_def demo_bunch_def demo_prepared_def demo_other_data_def
        demo_other_prepared_def check_random_state_def upt_rec[of _ "numeral _"]
        upt_rec[of _ "Suc _"])
  have te: "scaler_transform (Some demo_scaler) (X_test demo_other_prepared)
      = Inr (X_test_scaled demo_other_prepared)"
    by (simp add: scaler_transform_def demo_other_prepared_def demo_scaler_def)
  show ?thesis
    by (simp add: feature_engineering_def sp[simplified] scaler_fit_transform_def demo_fit
        demo_transform_train te)
       (simp add: demo_other_prepared_def demo_prepared_def)
qed

lemma demo_variances:
  "variance (column (X_train demo_prepared) 0) = 1"
  "variance (column (X_train demo_prepared) 2) = 0"
  "variance (column (X_train_scaled demo_prepared) 2) = 0"
  by (simp_all add: variance_def mean_def column_def demo_prepared_def)

subsection \<open>What a completed training loop leaves behind\<close>

lemma accuracy_score_count:
  assumes "accuracy_score y_true y_pred = Inr a"
  shows "length y_pred = length y_true \<and> y_true \<noteq> [] \<and>
         a = real (length (filter (\<lambda>(t, p). t = p) (zip y_true y_pred)))
             / real (length y_true)"
proof -
  have len: "length y_true = length y_pred" "y_true \<noteq> []"
    using assms by (auto simp: accuracy_score_def split: if_splits)
  have "sum_list (map (\<lambda>(t, p). if t = p then 1 else 0) ps)
        = real (length (filter (\<lambda>(t, p). t = p) ps))" for ps :: "(real \<times> real) list"
    by (induction ps) auto
  then show ?thesis using assms len by (auto simp: accuracy_score_def)
qed

lemma accuracy_score_bounds:
  assumes "accuracy_score y_true y_pred = Inr a"
  shows "0 \<le> a \<and> a \<le> 1"
proof -
  from accuracy_score_count[OF assms] have
    len: "length y_pred = length y_true" and ne: "y_true \<noteq> []" and
    a: "a = real (length (filter (\<lambda>(t, p). t = p) (zip y_true y_pred)))
              / real (length y_true)"
    by auto
  have "length (filter (\<lambda>(t, p). t = p) (zip y_true y_pred)) \<le> length (zip y_true y_pred)"
    by (rule length_filter_le)
  then have "length (filter (\<lambda>(t, p). t = p) (zip y_true y_pred)) \<le> length y_true"
    using len by simp
  then show ?thesis using ne by (simp add: a)
qed

lemma loop_body_completes:
  assumes "loop_body L gs p name model t = (None, t')"
  shows "\<exists>fitted predictions a.
           estimator_fit L gs model (X_train_scaled p) (y_train p) = Inr fitted \<and>
           predict L fitted (X_test_scaled p) = Inr predictions \<and>
           accuracy_score (y_test p) predictions = Inr a \<and>
           t' = t\<lparr>calls := calls t @ [Fit name, Predict name, Score name],
                  accuracies := dict_set (accuracies t) name a,
                  stdout := stdout t @ [AccuracyLine name a]\<rparr>"
  using assms by (auto simp: loop_body_def Let_def split: sum.splits)

lemma model_training_completes:
  assumes "model_training L gs p = (None, t)"
  shows "\<exists>m1 m2 m3 q1 q2 q3 a1 a2 a3.
     estimator_fit L gs \<lparr>cls = RandomForestClassifier, kwargs = [(''random_state'', 42)]\<rparr>
        (X_train_scaled p) (y_train p) = Inr m1 \<and>
     estimator_fit L gs
        \<lparr>cls = LogisticRegression, kwargs = [(''max_iter'', 1000), (''random_state'', 42)]\<rparr>
        (X_train_scaled p) (y_train p) = Inr m2 \<and>
     estimator_fit L gs \<lparr>cls = SVC, kwargs = [(''random_state'', 42)]\<rparr>
        (X_train_scaled p) (y_train p) = Inr m3 \<and>
     predict L m1 (X_test_scaled p) = Inr q1 \<and>
     predict L m2 (X_test_scaled p) = Inr q2 \<and>
     predict L m3 (X_test_scaled p) = Inr q3 \<and>
     accuracy_score (y_test p) q1 = Inr a1 \<and>
     accuracy_score (y_test p) q2 = Inr a2 \<and>
     accuracy_score (y_test p) q3 = Inr a3 \<and>
     accuracies t = [(''Random Forest'', a1), (''Logistic Regression'', a2),
                     (''Support Vector Machine'', a3)] \<and>
     stdout t = [AccuracyLine ''Random Forest'' a1, AccuracyLine ''Logistic Regression'' a2,
                 AccuracyLine ''Support Vector Machine'' a3]"
proof -
  let ?t0 = "\<lparr>accuracies = [], calls = [], stdout = []\<rparr>"
  let ?rf = "\<lparr>cls = RandomForestClassifier, kwargs = [(''random_state'', 42)]\<rparr>"
  let ?lr = "\<lparr>cls = LogisticRegression,
             kwargs = [(''max_iter'', 1000), (''random_state'', 42)]\<rparr>"
  let ?svc = "\<lparr>cls = SVC, kwargs = [(''random_state'', 42)]\<rparr>"
  obtain e1 t1 where b1: "loop_body L gs p ''Random Forest'' ?rf ?t0 = (e1, t1)"
    by (cases "loop_body L gs p ''Random Forest'' ?rf ?t0")
  obtain e2 t2 where b2: "loop_body L gs p ''Logistic Regression'' ?lr t1 = (e2, t2)"
    by (cases "loop_body L gs p ''Logistic Regression'' ?lr t1")
  obtain e3 t3 where b3: "loop_body L gs p ''Support Vector Machine'' ?svc t2 = (e3, t3)"
    by (cases "loop_body L gs p ''Support Vector Machine'' ?svc t2")
  from assms b1 have n1: "e1 = None"
    by (cases e1) (simp_all add: model_training_def models_def)
  from assms b1 b2 n1 have n2: "e2 = None"
    by (cases e2) (simp_all add: model_training_def models_def)
  from assms b1 b2 b3 n1 n2 have n3: "e3 = None" and tt: "t = t3"
    by (cases e3; simp add: model_training_def models_def)+
  from loop_body_completes[OF b1[unfolded n1]] loop_body_completes[OF b2[unfolded n2]]
       loop_body_completes[OF b3[unfolded n3]] tt
  show ?thesis by (clarsimp)
qed

lemma demo_model_training: "model_training demo_sklearn gs demo_prepared = (None, demo_training)"
  by (simp add: model_training_def models_def loop_body_def estimator_fit_def
      accuracy_score_def demo_sklearn_def demo_prepared_def demo_training_def)

lemma demo_load_cell: "load_cell demo_bunch = Inr demo_frame"
  by (simp add: load_cell_def DataFrame_def setitem_def demo_bunch_def demo_frame_def)

lemma demo_X:
  "drop_columns demo_frame [''target'']
     = Inr \<lparr>columns = feature_names demo_bunch, rows = data demo_bunch\<rparr>"
  by (simp add: drop_columns_def demo_frame_def demo_bunch_def)

lemma demo_y: "getitem demo_frame ''target'' = Inr (target demo_bunch)"
  by (simp add: getitem_def demo_frame_def demo_bunch_def)

lemma demo_selection:
  "model_selection (accuracies demo_training) = Inr (''Logistic Regression'', 1 / 2)"
  by (simp add: model_selection_def py_max_def dict_keys_def dict_get_def dict_getitem_def
      demo_training_def)

lemma demo_notebook: "notebook demo_sklearn gs demo_bunch = demo_run"
  by (simp add: notebook_def training_and_selection_def demo_load_cell demo_X demo_y
      demo_feature_engineering demo_model_training demo_selection no_run_def eda_pairplot_def)
     (simp add: demo_run_def demo_frame_def demo_training_def)

subsection \<open>Model selection\<close>

text \<open>
  Claim C1. After a training loop that completed, the accuracies are recorded under the
  three names in their declaration order, and selection returns a name together with
  its own recorded accuracy; that accuracy is the greatest recorded one, and every name
  registered before the returned one has a strictly smaller accuracy, so of several
  names with the greatest accuracy the first-registered is returned.
\<close>

theorem best_model_is_first_maximum:
  assumes "model_training L gs p = (None, t)"
  shows "dict_keys (accuracies t)
           = [''Random Forest'', ''Logistic Regression'', ''Support Vector Machine''] \<and>
         (\<exists>name acc. model_selection (accuracies t) = Inr (name, acc) \<and>
            dict_getitem (accuracies t) name = Inr acc \<and>
            (\<forall>(k, v) \<in> set (accuracies t). v \<le> acc) \<and>
            (\<forall>(k, v) \<in> set (takeWhile (\<lambda>(k, v). k \<noteq> name) (accuracies t)). v < acc))"
proof -
  from model_training_completes[OF assms] obtain a1 a2 a3 where
    acc: "accuracies t = [(''Random Forest'', a1), (''Logistic Regression'', a2),
                     (''Support Vector Machine'', a3)]" by blast
  show ?thesis unfolding acc
    by (simp add: dict_keys_def model_selection_def py_max_def dict_get_def dict_getitem_def)
qed

text \<open>
  In the small run the logistic regression and the support vector machine tie at one
  half, above the random forest: the logistic regression, registered first, is returned.
\<close>

theorem best_model_is_first_maximum_witness:
  "model_training demo_sklearn 0 demo_prepared = (None, demo_training) \<and>
   dict_get (accuracies demo_training) ''Support Vector Machine'' = Some (1 / 2) \<and>
   model_selection (accuracies demo_training) = Inr (''Logistic Regression'', 1 / 2)"
proof -
  have "model_selection (accuracies demo_training) = Inr (''Logistic Regression'', 1 / 2)"
    using best_model_is_first_maximum[OF demo_model_training]
    by (auto simp: demo_training_def dict_getitem_def split: if_splits)
  then show ?thesis
    using demo_model_training by (simp add: demo_training_def dict_get_def)
qed

subsection \<open>Accuracy\<close>

text \<open>
  Claim C2. After a training loop that completed, each of the three models has a recorded
  accuracy; it is the number of test rows whose predicted label is the true label,
  divided by the number of test rows, for the predictions of that model, fitted on the
  scaled train part, on the scaled test part; and it lies between 0 and 1.
\<close>

theorem recorded_accuracy_is_fraction_correct:
  assumes "model_training L gs p = (None, t)"
  shows "dict_keys (accuracies t) = dict_keys models \<and>
    (\<forall>(name, a) \<in> set (accuracies t). \<exists>model fitted predictions.
        dict_get models name = Some model \<and>
        estimator_fit L gs model (X_train_scaled p) (y_train p) = Inr fitted \<and>
        predict L fitted (X_test_scaled p) = Inr predictions \<and>
        length predictions = length (y_test p) \<and>
        a = real (length (filter (\<lambda>(true, predicted). true = predicted)
                                  (zip (y_test p) predictions)))
            / real (length (y_test p)) \<and>
        0 \<le> a \<and> a \<le> 1)"
proof -
  from model_training_completes[OF assms] obtain m1 m2 m3 q1 q2 q3 a1 a2 a3 where
    f: "estimator_fit L gs \<lparr>cls = RandomForestClassifier, kwargs = [(''random_state'', 42)]\<rparr>
        (X_train_scaled p) (y_train p) = Inr m1"
     "estimator_fit L gs
        \<lparr>cls = LogisticRegression, kwargs = [(''max_iter'', 1000), (''random_state'', 42)]\<rparr>
        (X_train_scaled p) (y_train p) = Inr m2"
     "estimator_fit L gs \<lparr>cls = SVC, kwargs = [(''random_state'', 42)]\<rparr>
        (X_train_scaled p) (y_train p) = Inr m3" and
    q: "predict L m1 (X_test_scaled p) = Inr q1"
     "predict L m2 (X_test_scaled p) = Inr q2"
     "predict L m3 (X_test_scaled p) = Inr q3" and
    a: "accuracy_score (y_test p) q1 = Inr a1"
     "accuracy_score (y_test p) q2 = Inr a2"
     "accuracy_score (y_test p) q3 = Inr a3" and
    acc: "accuracies t = [(''Random Forest'', a1), (''Logistic Regression'', a2),
                     (''Support Vector Machine'', a3)]" by blast
  note c = a[THEN accuracy_score_count] and b = a[THEN accuracy_score_bounds]
  show ?thesis unfolding acc
    using f q c b by (simp add: dict_keys_def models_def dict_get_def)
qed

text \<open>
  In the small run the logistic regression predicts 1 for both test rows, whose labels
  are 1 and 0: its recorded accuracy is one half.
\<close>

theorem recorded_accuracy_is_fraction_correct_witness:
  "model_training demo_sklearn 0 demo_prepared = (None, demo_training) \<and>
   dict_keys (accuracies demo_training) = dict_keys models \<and>
   y_test demo_prepared = [1, 0] \<and>
   predict demo_sklearn LogisticRegression (X_test_scaled demo_prepared) = Inr [1, 1] \<and>
   dict_get (accuracies demo_training) ''Logistic Regression'' = Some (1 / 2)"
proof -
  have h: "model_training demo_sklearn 0 demo_prepared = (None, demo_training)"
    by (rule demo_model_training)
  from recorded_accuracy_is_fraction_correct[OF h]
  have "dict_keys (accuracies demo_training) = dict_keys models" by (rule conjunct1)
  with h show ?thesis
    by (simp add: demo_training_def demo_prepared_def demo_sklearn_def dict_get_def)
qed

subsection \<open>The split\<close>

lemma n_test_less:
  assumes "2 \<le> n"
  shows "nat \<lceil>0.2 * real n\<rceil> < n" and "0 < nat \<lceil>0.2 * real n\<rceil>"
proof -
  have "\<lceil>0.2 * real n\<rceil> < 0.2 * real n + 1" by linarith
  also have "\<dots> \<le> real n" using assms by simp
  finally have "\<lceil>0.2 * real n\<rceil> < int n" by linarith
  then show "nat \<lceil>0.2 * real n\<rceil> < n" by linarith
  have "0 < 0.2 * real n" using assms by simp
  then have "0 < \<lceil>0.2 * real n\<rceil>" by linarith
  then show "0 < nat \<lceil>0.2 * real n\<rceil>" by simp
qed

lemma validate_shuffle_split_fifth:
  assumes "2 \<le> n"
  shows "validate_shuffle_split n 0.2 = Inr (n - nat \<lceil>0.2 * real n\<rceil>, nat \<lceil>0.2 * real n\<rceil>)"
  using n_test_less[OF assms] by (simp add: validate_shuffle_split_def Let_def)

text \<open>
  The library's split, on its own: for features and labels of the same length, at least
  two rows, and a generator whose permutation is a permutation of the row indices, it
  succeeds with index lists that are disjoint, without repetition and cover all rows.
\<close>

lemma train_test_split_of_permutation:
  assumes "length y = length X" and "2 \<le> length X"
    and "distinct (permutation L (RandomState 42) (length X))"
    and "set (permutation L (RandomState 42) (length X)) = {0..<length X}"
  shows "\<exists>train test.
      shuffle_split L (length X) 0.2 (Some 42) gs = Inr (train, test) \<and>
      train_test_split L X y 0.2 (Some 42) gs
        = Inr (map (\<lambda>i. X ! i) train, map (\<lambda>i. X ! i) test,
               map (\<lambda>i. y ! i) train, map (\<lambda>i. y ! i) test) \<and>
      set train \<inter> set test = {} \<and> set train \<union> set test = {0..<length X} \<and>
      distinct train \<and> distinct test \<and>
      length train + length test = length X \<and>
      length test = nat \<lceil>0.2 * real (length X)\<rceil> \<and>
      (length X = 569 \<longrightarrow> length test = 114 \<and> length train = 455)"
proof -
  let ?n = "length X"
  let ?k = "nat \<lceil>0.2 * real ?n\<rceil>"
  let ?p = "permutation L (RandomState 42) ?n"
  let ?train = "take (?n - ?k) (drop ?k ?p)" and ?test = "take ?k ?p"
  note dp = assms(3) and setp = assms(4)
  from distinct_card[OF dp] setp have lenp: "length ?p = ?n" by simp
  note k = n_test_less[OF assms(2)]
  have tr: "?train = drop ?k ?p" using lenp by simp
  have ss: "shuffle_split L ?n 0.2 (Some 42) gs = Inr (?train, ?test)"
    unfolding shuffle_split_def validate_shuffle_split_fifth[OF assms(2)]
    by (simp add: check_random_state_def Let_def)
  have sub: "set ?train \<subseteq> {0..<?n}" "set ?test \<subseteq> {0..<?n}"
    using setp set_drop_subset[of ?k ?p] set_take_subset[of ?k ?p] unfolding tr by auto
  then have idx: "list_all (\<lambda>i. i < ?n) ?train" "list_all (\<lambda>i. i < ?n) ?test"
    by (auto simp: list_all_iff)
  have tts: "train_test_split L X y 0.2 (Some 42) gs
        = Inr (map (\<lambda>i. X ! i) ?train, map (\<lambda>i. X ! i) ?test,
               map (\<lambda>i. y ! i) ?train, map (\<lambda>i. y ! i) ?test)"
    unfolding train_test_split_def ss using idx assms(1) by (simp add: safe_indexing_def)
  have disj: "set ?train \<inter> set ?test = {}"
    unfolding tr using set_take_disj_set_drop_if_distinct[OF dp, of ?k ?k] by auto
  have un: "set ?train \<union> set ?test = {0..<?n}"
    unfolding tr using setp set_append[of ?test "drop ?k ?p"] by (simp add: Un_commute)
  have dist: "distinct ?train" "distinct ?test"
    unfolding tr using dp by simp_all
  have l: "length ?test = ?k" "length ?train + length ?test = ?n"
    using lenp k by simp_all
  have "?n = 569 \<longrightarrow> length ?test = 114 \<and> length ?train = 455"
  proof
    assume n: "?n = 569"
    then have "?k = 114" by simp
    with l n show "length ?test = 114 \<and> length ?train = 455" by linarith
  qed
  with ss tts disj un dist l show ?thesis by blast
qed

text \<open>The scaler accepts what the split hands it: rows of one width, at least one.\<close>

lemma scaler_fit_succeeds:
  assumes "X \<noteq> []" and "\<forall>r \<in> set X. length r = d" and "0 < d"
  shows "\<exists>q. scaler_fit X = Inr q \<and> length (fitted_mean q) = d"
proof -
  from assms have "check_array X = Inr d"
    by (cases X) (auto simp: check_array_def list_all_iff)
  then show ?thesis by (simp add: scaler_fit_def Let_def)
qed

lemma scaler_transform_succeeds:
  assumes "\<forall>r \<in> set X. length r = length (fitted_mean q)"
  shows "\<exists>Xs. scaler_transform (Some q) X = Inr Xs"
  using assms by (simp add: scaler_transform_def list_all_iff)

text \<open>
  Claim C3. Let the features and the labels have the same length, at least two rows, the
  rows one width of at least one feature, and let the generator's permutation be a
  permutation of the row indices. Then the cell succeeds, and the train and test parts
  it binds are the features and the labels at train indices and at test indices that
  are disjoint, without repetition, and cover all rows: features and labels of a part
  are taken at the same indices in the same order, and the sizes of the two parts add
  up to the number of rows. The test part has \<open>\<lceil>0.2 * n\<rceil>\<close> rows, which for 569 rows is
  114, leaving 455 to train.
\<close>

theorem feature_engineering_partitions_rows:
  assumes "length y = length X" and "2 \<le> length X"
    and "\<forall>r \<in> set X. length r = d" and "0 < d"
    and "distinct (permutation L (RandomState 42) (length X))"
    and "set (permutation L (RandomState 42) (length X)) = {0..<length X}"
  shows "\<exists>p train test.
      feature_engineering L gs X y = Inr p \<and>
      X_train p = map (\<lambda>i. X ! i) train \<and> X_test p = map (\<lambda>i. X ! i) test \<and>
      y_train p = map (\<lambda>i. y ! i) train \<and> y_test p = map (\<lambda>i. y ! i) test \<and>
      set train \<inter> set test = {} \<and> set train \<union> set test = {0..<length X} \<and>
      distinct train \<and> distinct test \<and>
      length (X_train p) + length (X_test p) = length X \<and>
      length (y_train p) = length (X_train p) \<and> length (y_test p) = length (X_test p) \<and>
      length (X_test p) = nat \<lceil>0.2 * real (length X)\<rceil> \<and>
      (length X = 569 \<longrightarrow> length (X_test p) = 114 \<and> length (X_train p) = 455)"
proof -
  from train_test_split_of_permutation[OF assms(1,2,5,6), of gs] obtain train test where
    tts: "train_test_split L X y 0.2 (Some 42) gs
        = Inr (map (\<lambda>i. X ! i) train, map (\<lambda>i. X ! i) test,
               map (\<lambda>i. y ! i) train, map (\<lambda>i. y ! i) test)" and
    part: "set train \<inter> set test = {}" "set train \<union> set test = {0..<length X}"
      "distinct train" "distinct test" and
    len: "length train + length test = length X"
      "length test = nat \<lceil>0.2 * real (length X)\<rceil>"
      "length X = 569 \<longrightarrow> length test = 114 \<and> length train = 455"
    by blast
  let ?Xtr = "map (\<lambda>i. X ! i) train" and ?Xte = "map (\<lambda>i. X ! i) test"
  from n_test_less[OF assms(2)] len have "train \<noteq> []" by auto
  then have ne: "?Xtr \<noteq> []" by simp
  from part(2) have "\<forall>i \<in> set train. i < length X" "\<forall>i \<in> set test. i < length X"
    by auto
  with assms(3) have w: "\<forall>r \<in> set ?Xtr. length r = d" "\<forall>r \<in> set ?Xte. length r = d"
    by auto
  from scaler_fit_succeeds[OF ne w(1) assms(4)] obtain q where
    q: "scaler_fit ?Xtr = Inr q" "length (fitted_mean q) = d" by blast
  from scaler_transform_succeeds[of ?Xtr q] w(1) q(2) obtain Xtrs where
    a: "scaler_transform (Some q) ?Xtr = Inr Xtrs" by auto
  from scaler_transform_succeeds[of ?Xte q] w(2) q(2) obtain Xtes where
    b: "scaler_transform (Some q) ?Xte = Inr Xtes" by auto
  have "feature_engineering L gs X y
      = Inr \<lparr>X_train = ?Xtr, X_test = ?Xte, y_train = map (\<lambda>i. y ! i) train,
              y_test = map (\<lambda>i. y ! i) test, scaler = Some q, X_train_scaled = Xtrs,
              X_test_scaled = Xtes\<rparr>"
    unfolding feature_engineering_def tts scaler_fit_transform_def by (simp add: q a b)
  with part len show ?thesis by auto
qed

text \<open>On 569 rows of one feature, with the library that reverses the indices.\<close>

theorem feature_engineering_partitions_rows_witness:
  "length (replicate 569 (0::real)) = length (replicate 569 [0::real]) \<and>
   2 \<le> length (replicate 569 [0::real]) \<and>
   list_all (\<lambda>r. length r = 1) (replicate 569 [0::real]) \<and>
   distinct (permutation demo_sklearn (RandomState 42) 569) \<and>
   set (permutation demo_sklearn (RandomState 42) 569) = {0..<569} \<and>
   (\<exists>p. feature_engineering demo_sklearn 0 (replicate 569 [0]) (replicate 569 0) = Inr p \<and>
      length (X_test p) = 114 \<and> length (X_train p) = 455 \<and>
      length (y_test p) = 114 \<and> length (y_train p) = 455)"
proof -
  let ?X = "replicate 569 [0::real]" and ?y = "replicate 569 (0::real)"
  have a: "length ?y = length ?X" "2 \<le> length ?X" by simp_all
  have w: "\<forall>r \<in> set ?X. length r = 1" "0 < (1::nat)" by simp_all
  have d: "distinct (permutation demo_sklearn (RandomState 42) (length ?X))"
    by (simp add: demo_sklearn_def)
  have s: "set (permutation demo_sklearn (RandomState 42) (length ?X)) = {0..<length ?X}"
    by (simp add: demo_sklearn_def)
  from feature_engineering_partitions_rows[OF a w d s, of 0] obtain p where
    "feature_engineering demo_sklearn 0 ?X ?y = Inr p"
    "length (X_test p) = 114" "length (X_train p) = 455"
    "length (y_test p) = 114" "length (y_train p) = 455"
    by auto
  then have "\<exists>p. feature_engineering demo_sklearn 0 ?X ?y = Inr p \<and>
      length (X_test p) = 114 \<and> length (X_train p) = 455 \<and>
      length (y_test p) = 114 \<and> length (y_train p) = 455"
    by blast
  with a d s show ?thesis by (simp add: list_all_iff)
qed

subsection \<open>Determinism\<close>

text \<open>
  Every call of the notebook that can draw random numbers is given the seed 42, so the
  state of the process-wide generator never reaches a result.
\<close>

lemma check_random_state_seeded: "check_random_state (Some seed) gs = RandomState seed"
  by (simp add: check_random_state_def)

lemma shuffle_split_seeded:
  "shuffle_split L n test_size (Some seed) gs1 = shuffle_split L n test_size (Some seed) gs2"
  unfolding shuffle_split_def check_random_state_seeded by (rule refl)

lemma feature_engineering_seeded:
  "feature_engineering L gs1 X y = feature_engineering L gs2 X y"
  unfolding feature_engineering_def train_test_split_def shuffle_split_def
    check_random_state_seeded by (rule refl)

lemma loop_body_seeded:
  assumes "map_of (kwargs model) ''random_state'' = Some seed"
  shows "loop_body L gs1 p name model t = loop_body L gs2 p name model t"
  unfolding loop_body_def estimator_fit_def assms check_random_state_seeded by (rule refl)

lemma for_loop_seeded:
  assumes "\<forall>(name, model) \<in> set ms. map_of (kwargs model) ''random_state'' \<noteq> None"
  shows "for_loop L gs1 p ms t = for_loop L gs2 p ms t"
  using assms
proof (induction ms arbitrary: t)
  case Nil
  show ?case by simp
next
  case (Cons nm ms)
  obtain name model where nm: "nm = (name, model)" by (cases nm)
  with Cons.prems obtain seed where "map_of (kwargs model) ''random_state'' = Some seed"
    by auto
  from loop_body_seeded[OF this, of L gs1 p name t gs2] Cons nm show ?case
    by (auto split: prod.splits option.splits)
qed

lemma model_training_seeded: "model_training L gs1 p = model_training L gs2 p"
  unfolding model_training_def
  by (rule for_loop_seeded) (simp add: models_def)

text \<open>
  Claim C4. Two runs on the same dataset, with the same library and any two states of
  the process-wide generator, leave the same record behind: the same train and test
  parts, the same fitted scaler, the same three accuracies and the same best model; and
  the train and test indices of the split are the same. (That a library call with a
  seeded generator is a function of its arguments is how the library is modelled.)
\<close>

theorem notebook_is_deterministic:
  "notebook L gs1 ds = notebook L gs2 ds \<and>
   shuffle_split L n 0.2 (Some 42) gs1 = shuffle_split L n 0.2 (Some 42) gs2"
  unfolding notebook_def training_and_selection_def feature_engineering_seeded[of L gs1 _ _ gs2]
      model_training_seeded[of L gs1 _ gs2] shuffle_split_seeded[of L _ _ _ gs1 gs2]
  by simp

text \<open>The small run, under two different states of the process-wide generator.\<close>

theorem notebook_is_deterministic_witness:
  "notebook demo_sklearn 0 demo_bunch = notebook demo_sklearn 1 demo_bunch \<and>
   notebook demo_sklearn 1 demo_bunch = demo_run"
  using notebook_is_deterministic[of demo_sklearn 0 demo_bunch 1 10]
  by (simp add: demo_notebook)

subsection \<open>Standardisation\<close>





lemma variance_nonneg: "0 \<le> variance xs"
  by (auto simp: variance_def intro!: divide_nonneg_nonneg sum_list_nonneg)


lemma variance_zero_constant:
  assumes "variance xs = 0" and "x \<in> set xs"
  shows "x = mean xs"
proof -
  from assms(2) have ne: "xs \<noteq> []" by auto
  with assms(1) have "sum_list (map (\<lambda>x. (x - mean xs)\<^sup>2) xs) = 0"
    by (simp add: variance_def)
  then have "\<forall>v \<in> set (map (\<lambda>x. (x - mean xs)\<^sup>2) xs). v = 0"
    by (subst (asm) sum_list_nonneg_eq_0_iff) auto
  with assms(2) show ?thesis by auto
qed

lemma check_array_Inr:
  assumes "check_array X = Inr d"
  shows "X \<noteq> [] \<and> 0 < d \<and> (\<forall>r \<in> set X. length r = d)"
  using assms
  by (cases X) (auto simp: check_array_def list_all_iff split: if_splits)

lemma is_constant_feature_zero: "is_constant_feature 0 mu n"
  by (simp add: is_constant_feature_def)

lemma not_constant_feature_pos:
  assumes "\<not> is_constant_feature v mu n" and "0 \<le> v"
  shows "0 < v"
proof (rule ccontr)
  assume "\<not> 0 < v"
  with assms(2) have "v = 0" by simp
  with assms(1) show False by (simp add: is_constant_feature_zero)
qed

lemma scaler_fit_Inr:
  assumes "scaler_fit X = Inr q"
  shows "X \<noteq> [] \<and> (\<forall>r \<in> set X. length r = length (fitted_mean q)) \<and>
         length (fitted_var q) = length (fitted_mean q) \<and>
         length (fitted_scale q) = length (fitted_mean q) \<and>
         n_samples_seen q = length X \<and>
         (\<forall>j < length (fitted_mean q).
            fitted_mean q ! j = mean (column X j) \<and>
            fitted_var q ! j = variance (column X j) \<and>
            fitted_scale q ! j
              = (if is_constant_feature (variance (column X j)) (mean (column X j)) (length X)
                 then 1 else sqrt (variance (column X j))))"
proof -
  from assms obtain d where d: "check_array X = Inr d"
    by (auto simp: scaler_fit_def split: sum.splits)
  let ?cols = "map (column X) [0..<d]"
  from d assms have q: "q = \<lparr>fitted_mean = map mean ?cols,
       fitted_var = map variance ?cols,
       fitted_scale = handle_zeros_in_scale (map sqrt (map variance ?cols))
          (map2 (\<lambda>var mu. is_constant_feature var mu (length X))
             (map variance ?cols) (map mean ?cols)),
       n_samples_seen = length X\<rparr>"
    by (auto simp: scaler_fit_def Let_def comp_assoc)
  from check_array_Inr[OF d] show ?thesis
    by (simp add: q handle_zeros_in_scale_def)
qed

lemma scaler_transform_Inr:
  assumes "scaler_transform (Some q) X = Inr Xs"
    and "length (fitted_scale q) = length (fitted_mean q)"
  shows "length Xs = length X \<and>
         (\<forall>i < length X. \<forall>j < length (fitted_mean q).
            Xs ! i ! j = (X ! i ! j - fitted_mean q ! j) / fitted_scale q ! j)"
proof -
  from assms(1) have w: "\<forall>r \<in> set X. length r = length (fitted_mean q)"
    and Xs: "Xs = map (\<lambda>r. map (\<lambda>(x, m, s). (x - m) / s)
                (zip r (zip (fitted_mean q) (fitted_scale q)))) X"
    by (auto simp: scaler_transform_def list_all_iff split: if_splits)
  show ?thesis using w assms(2) by (simp add: Xs)
qed


lemma feature_engineering_Inr:
  assumes "feature_engineering L gs X y = Inr p"
  shows "\<exists>train test q. length X = length y \<and>
           shuffle_split L (length X) 0.2 (Some 42) gs = Inr (train, test) \<and>
           X_train p = map (\<lambda>i. X ! i) train \<and> X_test p = map (\<lambda>i. X ! i) test \<and>
           y_train p = map (\<lambda>i. y ! i) train \<and> y_test p = map (\<lambda>i. y ! i) test \<and>
           scaler_fit (X_train p) = Inr q \<and> scaler p = Some q \<and>
           scaler_transform (Some q) (X_train p) = Inr (X_train_scaled p) \<and>
           scaler_transform (Some q) (X_test p) = Inr (X_test_scaled p)"
  using assms
  by (auto simp: feature_engineering_def train_test_split_def safe_indexing_def
      scaler_fit_transform_def split: sum.splits if_splits prod.splits)

text \<open>
  Claim C5. The fitted scaler is the fit of the train rows, made once (it has seen exactly
  the train rows), and the scaled test rows are the transform of the test rows by that
  same scaler. Hence two datasets of the same size that agree on the rows at the train
  indices, however they differ on the other rows and on the labels, give the same
  fitted scaler and the same scaled train rows.
\<close>

theorem scaler_is_fitted_on_train_rows_only:
  assumes "feature_engineering L gs X1 y1 = Inr p1"
    and "feature_engineering L gs X2 y2 = Inr p2"
    and "length X1 = length X2"
    and "shuffle_split L (length X1) 0.2 (Some 42) gs = Inr (train, test)"
    and "\<forall>i \<in> set train. X1 ! i = X2 ! i"
  shows "scaler p1 = scaler p2 \<and> X_train_scaled p1 = X_train_scaled p2 \<and>
         (\<exists>q. scaler_fit (X_train p1) = Inr q \<and> scaler p1 = Some q \<and>
              n_samples_seen q = length (X_train p1)) \<and>
         scaler_transform (scaler p1) (X_test p1) = Inr (X_test_scaled p1)"
proof -
  from feature_engineering_Inr[OF assms(1)] assms(4) obtain q1 where
    p1: "X_train p1 = map (\<lambda>i. X1 ! i) train" "scaler_fit (X_train p1) = Inr q1"
      "scaler p1 = Some q1" "scaler_transform (Some q1) (X_train p1) = Inr (X_train_scaled p1)"
      "scaler_transform (Some q1) (X_test p1) = Inr (X_test_scaled p1)"
    by auto
  from feature_engineering_Inr[OF assms(2)] assms(3,4) obtain q2 where
    p2: "X_train p2 = map (\<lambda>i. X2 ! i) train" "scaler_fit (X_train p2) = Inr q2"
      "scaler p2 = Some q2" "scaler_transform (Some q2) (X_train p2) = Inr (X_train_scaled p2)"
    by auto
  from assms(5) have same: "X_train p1 = X_train p2"
    unfolding p1(1) p2(1) by (simp cong: map_cong)
  with p1(2) p2(2) have q: "q1 = q2" by simp
  from p1(4) p2(4) have "X_train_scaled p1 = X_train_scaled p2"
    unfolding same q by simp
  moreover from scaler_fit_Inr[OF p1(2)] have "n_samples_seen q1 = length (X_train p1)"
    by simp
  ultimately show ?thesis using p1 p2 q by simp
qed

text \<open>The small run and its variant with two other test rows.\<close>

theorem scaler_is_fitted_on_train_rows_only_witness:
  "feature_engineering demo_sklearn 0 (data demo_bunch) (target demo_bunch) = Inr demo_prepared \<and>
   feature_engineering demo_sklearn 0 demo_other_data (target demo_bunch)
     = Inr demo_other_prepared \<and>
   length (data demo_bunch) = length demo_other_data \<and>
   shuffle_split demo_sklearn (length (data demo_bunch)) 0.2 (Some 42) 0
     = Inr ([7, 6, 5, 4, 3, 2, 1, 0], [9, 8]) \<and>
   X_test demo_prepared \<noteq> X_test demo_other_prepared \<and>
   scaler demo_prepared = scaler demo_other_prepared \<and>
   scaler demo_other_prepared = Some demo_scaler"
proof -
  have l: "length (data demo_bunch) = length demo_other_data"
    by (simp add: demo_bunch_def demo_other_data_def)
  have sp: "shuffle_split demo_sklearn (length (data demo_bunch)) 0.2 (Some 42) 0
     = Inr ([7, 6, 5, 4, 3, 2, 1, 0], [9, 8])"
    by (simp add: shuffle_split_def validate_shuffle_split_def demo_sklearn_def demo_bunch_def
        check_random_state_def upt_rec[of _ "numeral _"] upt_rec[of _ "Suc _"])
  have ag: "\<forall>i \<in> set [7, 6, 5, 4, 3, 2, 1, 0::nat]. data demo_bunch ! i = demo_other_data ! i"
    by (simp add: demo_bunch_def demo_other_data_def)
  from scaler_is_fitted_on_train_rows_only[OF demo_feature_engineering
      demo_other_feature_engineering l sp ag]
  have "scaler demo_prepared = scaler demo_other_prepared" by (rule conjunct1)
  with l sp show ?thesis
    by (simp add: demo_feature_engineering demo_other_feature_engineering)
       (simp add: demo_other_prepared_def demo_prepared_def)
qed




text \<open>
  Claim C7 as stated fails: the third feature of the small run has variance zero on the
  train part, and its fitted scale is 1, not 0, so nothing is divided by zero.
\<close>

theorem zero_variance_scale_is_one:
  "feature_engineering demo_sklearn 0 (data demo_bunch) (target demo_bunch) = Inr demo_prepared \<and>
   scaler demo_prepared = Some demo_scaler \<and>
   variance (column (X_train demo_prepared) 2) = 0 \<and>
   fitted_scale demo_scaler ! 2 = 1 \<and> fitted_scale demo_scaler ! 2 \<noteq> 0"
  by (simp add: demo_feature_engineering demo_variances)
     (simp add: demo_prepared_def demo_scaler_def)

text \<open>
  Claim C7, amended. For a feature of variance zero on the train part the fitted scale
  is 1, no fitted scale is 0, the scaled train values of the feature are all 0 and its
  scaled test values are the raw values minus the train mean.
\<close>

theorem zero_variance_feature_is_left_unscaled:
  assumes "feature_engineering L gs X y = Inr p" and "scaler p = Some q"
    and "j < length (fitted_mean q)" and "variance (column (X_train p) j) = 0"
  shows "fitted_scale q ! j = 1 \<and> 0 \<notin> set (fitted_scale q) \<and>
         (\<forall>i < length (X_train p). X_train_scaled p ! i ! j = 0) \<and>
         (\<forall>i < length (X_test p).
            X_test_scaled p ! i ! j = X_test p ! i ! j - mean (column (X_train p) j))"
proof -
  from feature_engineering_Inr[OF assms(1)] assms(2) have
    fit: "scaler_fit (X_train p) = Inr q" and
    tr: "scaler_transform (Some q) (X_train p) = Inr (X_train_scaled p)" and
    te: "scaler_transform (Some q) (X_test p) = Inr (X_test_scaled p)"
    by auto
  note f = scaler_fit_Inr[OF fit]
  from f have len: "length (fitted_scale q) = length (fitted_mean q)" by simp
  from f assms(3,4) have m: "fitted_mean q ! j = mean (column (X_train p) j)"
    and s: "fitted_scale q ! j = 1"
    by (auto simp: is_constant_feature_zero)
  have nz: "0 \<notin> set (fitted_scale q)"
  proof
    assume "0 \<in> set (fitted_scale q)"
    then obtain k where k: "k < length (fitted_scale q)" "fitted_scale q ! k = 0"
      by (auto simp: in_set_conv_nth)
    with f len have nc: "\<not> is_constant_feature (variance (column (X_train p) k))
        (mean (column (X_train p) k)) (length (X_train p))"
      and z: "sqrt (variance (column (X_train p) k)) = 0"
      by (auto split: if_splits)
    from not_constant_feature_pos[OF nc variance_nonneg] z show False by simp
  qed
  have "\<forall>i < length (X_train p). X_train_scaled p ! i ! j = 0"
  proof (intro allI impI)
    fix i assume i: "i < length (X_train p)"
    then have "X_train p ! i ! j \<in> set (column (X_train p) j)"
      by (auto simp: column_def)
    from variance_zero_constant[OF assms(4) this]
    show "X_train_scaled p ! i ! j = 0"
      using scaler_transform_Inr[OF tr len] i assms(3) by (simp add: m s)
  qed
  moreover have "\<forall>i < length (X_test p).
            X_test_scaled p ! i ! j = X_test p ! i ! j - mean (column (X_train p) j)"
    using scaler_transform_Inr[OF te len] assms(3) by (simp add: m s)
  ultimately show ?thesis using s nz by blast
qed

text \<open>The third feature of the small run: the test value 9 becomes 2.\<close>

theorem zero_variance_feature_is_left_unscaled_witness:
  "feature_engineering demo_sklearn 0 (data demo_bunch) (target demo_bunch) = Inr demo_prepared \<and>
   scaler demo_prepared = Some demo_scaler \<and> 2 < length (fitted_mean demo_scaler) \<and>
   variance (column (X_train demo_prepared) 2) = 0 \<and>
   fitted_scale demo_scaler ! 2 = 1 \<and> 0 \<notin> set (fitted_scale demo_scaler) \<and>
   X_test demo_prepared ! 0 ! 2 = 9 \<and> X_test_scaled demo_prepared ! 0 ! 2 = 2"
proof -
  have s: "scaler demo_prepared = Some demo_scaler" by (simp add: demo_prepared_def)
  have j: "2 < length (fitted_mean demo_scaler)" by (simp add: demo_scaler_def)
  have v: "variance (column (X_train demo_prepared) 2) = 0" by (simp add: demo_variances)
  from zero_variance_feature_is_left_unscaled[OF demo_feature_engineering s j v]
  have "fitted_scale demo_scaler ! 2 = 1 \<and> 0 \<notin> set (fitted_scale demo_scaler)" by blast
  with s j v show ?thesis
    by (simp add: demo_feature_engineering) (simp add: demo_prepared_def)
qed

subsection \<open>Model configurations\<close>

text \<open>
  Claim C8 as stated fails: the logistic regression is constructed with
  \<^verbatim>\<open>max_iter=1000\<close>, a keyword other than the seed and a value other than the
  library's default.
\<close>

theorem logistic_regression_sets_max_iter:
  "dict_get models ''Logistic Regression''
     = Some \<lparr>cls = LogisticRegression, kwargs = [(''max_iter'', 1000), (''random_state'', 42)]\<rparr> \<and>
   dict_get [(''max_iter'', 1000), (''random_state'', 42)] ''max_iter'' = Some (1000::int) \<and>
   ''max_iter'' \<noteq> ''random_state'' \<and> 1000 \<noteq> default_max_iter"
  by (simp add: dict_get_def models_def default_max_iter_def)

text \<open>
  Claim C8, amended. The three models are the random forest, the logistic regression and
  the support vector machine, each constructed with \<^verbatim>\<open>random_state=42\<close>. The logistic
  regression is also constructed with \<^verbatim>\<open>max_iter=1000\<close>, which is not the library's
  default of 100, and no other keyword is passed to any of the three: the library fits
  the random forest and the support vector machine with no hyperparameter set, and the
  logistic regression with \<^verbatim>\<open>max_iter=1000\<close> alone, each on a generator seeded with 42.
\<close>

theorem models_pass_seed_and_max_iter:
  "dict_keys models = [''Random Forest'', ''Logistic Regression'', ''Support Vector Machine''] \<and>
   (\<exists>rf lr svc.
      dict_get models ''Random Forest'' = Some rf \<and>
      dict_get models ''Logistic Regression'' = Some lr \<and>
      dict_get models ''Support Vector Machine'' = Some svc \<and>
      dict_get (kwargs lr) ''max_iter'' = Some 1000 \<and>
      estimator_fit L gs rf X y = fit L RandomForestClassifier [] (RandomState 42) X y \<and>
      estimator_fit L gs lr X y
        = fit L LogisticRegression [(''max_iter'', 1000)] (RandomState 42) X y \<and>
      estimator_fit L gs svc X y = fit L SVC [] (RandomState 42) X y) \<and>
   (\<forall>(name, model) \<in> set models.
      dict_get (kwargs model) ''random_state'' = Some 42 \<and>
      (\<forall>(k, v) \<in> set (kwargs model).
         (k = ''random_state'' \<and> v = 42) \<or>
         (name = ''Logistic Regression'' \<and> cls model = LogisticRegression \<and>
          k = ''max_iter'' \<and> v = 1000))) \<and>
   default_max_iter \<noteq> 1000"
  by (simp add: models_def dict_keys_def dict_get_def estimator_fit_def check_random_state_def
      default_max_iter_def)

text \<open>The logistic regression, with its two keywords.\<close>

theorem models_pass_seed_and_max_iter_witness:
  "(''Logistic Regression'',
      \<lparr>cls = LogisticRegression, kwargs = [(''max_iter'', 1000), (''random_state'', 42)]\<rparr>)
     \<in> set models \<and>
   dict_get [(''max_iter'', 1000), (''random_state'', 42::int)] ''random_state'' = Some 42 \<and>
   dict_get [(''max_iter'', 1000), (''random_state'', 42::int)] ''max_iter'' = Some 1000 \<and>
   (''max_iter'', 1000) \<in> set [(''max_iter'', 1000), (''random_state'', 42::int)]"
proof -
  let ?lr = "\<lparr>cls = LogisticRegression,
             kwargs = [(''max_iter'', 1000), (''random_state'', 42)]\<rparr>"
  have m: "(''Logistic Regression'', ?lr) \<in> set models"
    by (simp add: models_def)
  from models_pass_seed_and_max_iter[of demo_sklearn 0 "[]" "[]"] m
  have "dict_get (kwargs ?lr) ''random_state'' = Some 42"
    by blast
  with m show ?thesis by (simp add: dict_get_def)
qed

subsection \<open>Failure of a library call\<close>

lemma loop_body_raises:
  assumes "estimator_fit L gs model (X_train_scaled p) (y_train p) = Inl e \<or>
           (\<exists>fitted. estimator_fit L gs model (X_train_scaled p) (y_train p) = Inr fitted \<and>
                      predict L fitted (X_test_scaled p) = Inl e)"
  shows "loop_body L gs p name model t = (Some e, t\<lparr>calls := calls t @ [Fit name]\<rparr>) \<or>
         loop_body L gs p name model t = (Some e, t\<lparr>calls := calls t @ [Fit name, Predict name]\<rparr>)"
  using assms by (auto simp: loop_body_def Let_def)

lemma for_loop_Cons_completes:
  assumes "for_loop L gs p ((n, m) # rest) t = (None, t')"
  shows "\<exists>a. for_loop L gs p rest
                (t\<lparr>calls := calls t @ [Fit n, Predict n, Score n],
                   accuracies := dict_set (accuracies t) n a,
                   stdout := stdout t @ [AccuracyLine n a]\<rparr>) = (None, t') \<and>
             loop_body L gs p n m t
               = (None, t\<lparr>calls := calls t @ [Fit n, Predict n, Score n],
                   accuracies := dict_set (accuracies t) n a,
                   stdout := stdout t @ [AccuracyLine n a]\<rparr>)"
proof -
  obtain r t'' where b: "loop_body L gs p n m t = (r, t'')"
    by (cases "loop_body L gs p n m t")
  with assms have r: "r = None" and f: "for_loop L gs p rest t'' = (None, t')"
    by (cases r; simp)+
  from loop_body_completes[OF b[unfolded r]] b r f show ?thesis by auto
qed

text \<open>
  Claim C9 as stated fails in its last part: a failure does leave a partial result
  behind. With a library whose logistic regression fails to fit, the random forest's
  accuracy has been stored and printed when the run ends.
\<close>

theorem failed_run_keeps_earlier_accuracies:
  "model_training failing_sklearn 0 demo_prepared
     = (Some (LibraryError ''ConvergenceError''),
        demo_first_pass\<lparr>calls := calls demo_first_pass @ [Fit ''Logistic Regression'']\<rparr>) \<and>
   accuracies demo_first_pass = [(''Random Forest'', 0)] \<and>
   stdout demo_first_pass = [AccuracyLine ''Random Forest'' 0] \<and>
   trained (training_and_selection failing_sklearn 0 demo_prepared no_run)
     = Some (demo_first_pass\<lparr>calls := calls demo_first_pass @ [Fit ''Logistic Regression'']\<rparr>) \<and>
   report (training_and_selection failing_sklearn 0 demo_prepared no_run)
     = [AccuracyLine ''Random Forest'' 0]"
proof -
  have m: "model_training failing_sklearn 0 demo_prepared
     = (Some (LibraryError ''ConvergenceError''),
        demo_first_pass\<lparr>calls := calls demo_first_pass @ [Fit ''Logistic Regression'']\<rparr>)"
    by (simp add: model_training_def models_def loop_body_def estimator_fit_def
        accuracy_score_def failing_sklearn_def demo_sklearn_def demo_prepared_def
        demo_first_pass_def)
  show ?thesis
    by (simp add: training_and_selection_def m) (simp add: demo_first_pass_def no_run_def)
qed

text \<open>
  Claim C9, amended. Let the models before the \<open>k\<close>-th have completed their passes and
  let the \<open>k\<close>-th model's fit, or its predict, raise \<open>e\<close>. Then the loop ends raising
  that same \<open>e\<close>, and so does the run of the training and selection cells in order: no
  best model is selected or printed. The failing call is the last call made and no
  call is made twice; the model is not scored, and no later model is fitted, asked to
  predict or scored. What the run leaves behind is what the completed passes had
  stored and printed, no more and no less.
\<close>

theorem library_failure_aborts_run:
  assumes "k < length models" and "models ! k = (name, model)"
    and "for_loop L gs p (take k models) \<lparr>accuracies = [], calls = [], stdout = []\<rparr>
           = (None, t1)"
    and "estimator_fit L gs model (X_train_scaled p) (y_train p) = Inl e \<or>
         (\<exists>fitted. estimator_fit L gs model (X_train_scaled p) (y_train p) = Inr fitted \<and>
                    predict L fitted (X_test_scaled p) = Inl e)"
  shows "\<exists>t. model_training L gs p = (Some e, t) \<and>
           training_and_selection L gs p r
             = r\<lparr>raised := Some e, prep := Some p, trained := Some t, report := stdout t\<rparr> \<and>
           accuracies t = accuracies t1 \<and> stdout t = stdout t1 \<and>
           dict_keys (accuracies t) = dict_keys (take k models) \<and>
           distinct (calls t) \<and> last (calls t) \<in> {Fit name, Predict name} \<and>
           Score name \<notin> set (calls t) \<and>
           (\<forall>(n, m) \<in> set (drop (Suc k) models).
              Fit n \<notin> set (calls t) \<and> Predict n \<notin> set (calls t) \<and>
              Score n \<notin> set (calls t))"
proof -
  let ?t0 = "\<lparr>accuracies = [], calls = [], stdout = []\<rparr>"
  let ?rf = "\<lparr>cls = RandomForestClassifier, kwargs = [(''random_state'', 42)]\<rparr>"
  let ?lr = "\<lparr>cls = LogisticRegression,
             kwargs = [(''max_iter'', 1000), (''random_state'', 42)]\<rparr>"
  let ?svc = "\<lparr>cls = SVC, kwargs = [(''random_state'', 42)]\<rparr>"
  note raises = loop_body_raises[OF assms(4)]
  from assms(1) have "k = 0 \<or> k = 1 \<or> k = 2" by (auto simp: models_def)
  then consider (rf) "k = 0" | (lr) "k = 1" | (svc) "k = 2" by blast
  then show ?thesis
  proof cases
    case rf
    with assms(2,3) have nm: "name = ''Random Forest''" "model = ?rf" and t1: "t1 = ?t0"
      by (auto simp: models_def)
    from raises[of name ?t0] show ?thesis
      by (auto simp: model_training_def training_and_selection_def models_def nm t1 rf
            dict_keys_def)
  next
    case lr
    with assms(2) have nm: "name = ''Logistic Regression''" "model = ?lr"
      by (auto simp: models_def)
    from assms(3) lr have "for_loop L gs p [(''Random Forest'', ?rf)] ?t0 = (None, t1)"
      by (simp add: models_def)
    from for_loop_Cons_completes[OF this] obtain a1 where
      t1: "t1 = \<lparr>accuracies = [(''Random Forest'', a1)],
                 calls = [Fit ''Random Forest'', Predict ''Random Forest'',
                          Score ''Random Forest''],
                 stdout = [AccuracyLine ''Random Forest'' a1]\<rparr>" and
      b1: "loop_body L gs p ''Random Forest'' ?rf ?t0 = (None, t1)"
      by auto
    from raises[of name t1] show ?thesis
      by (auto simp: model_training_def training_and_selection_def models_def nm b1 lr
            dict_keys_def)
         (simp_all add: t1)
  next
    case svc
    let ?after_rf = "\<lambda>a1. \<lparr>accuracies = [(''Random Forest'', a1)],
        calls = [Fit ''Random Forest'', Predict ''Random Forest'', Score ''Random Forest''],
        stdout = [AccuracyLine ''Random Forest'' a1]\<rparr>"
    from svc assms(2) have nm: "name = ''Support Vector Machine''" "model = ?svc"
      by (auto simp: models_def eval_nat_numeral)
    from assms(3) svc have
      "for_loop L gs p [(''Random Forest'', ?rf), (''Logistic Regression'', ?lr)] ?t0
         = (None, t1)"
      by (simp add: models_def eval_nat_numeral)
    from for_loop_Cons_completes[OF this] obtain a1 where
      b1: "loop_body L gs p ''Random Forest'' ?rf ?t0 = (None, ?after_rf a1)" and
      f2: "for_loop L gs p [(''Logistic Regression'', ?lr)] (?after_rf a1) = (None, t1)"
      by auto
    from for_loop_Cons_completes[OF f2] obtain a2 where
      t1: "t1 = \<lparr>accuracies = [(''Random Forest'', a1), (''Logistic Regression'', a2)],
                 calls = [Fit ''Random Forest'', Predict ''Random Forest'',
                          Score ''Random Forest'', Fit ''Logistic Regression'',
                          Predict ''Logistic Regression'', Score ''Logistic Regression''],
                 stdout = [AccuracyLine ''Random Forest'' a1,
                           AccuracyLine ''Logistic Regression'' a2]\<rparr>" and
      b2: "loop_body L gs p ''Logistic Regression'' ?lr (?after_rf a1) = (None, t1)"
      by auto
    from raises[of name t1] show ?thesis
      by (auto simp: model_training_def training_and_selection_def models_def nm b1 b2 svc
            dict_keys_def eval_nat_numeral)
         (simp_all add: t1)
  qed
qed

text \<open>
  With a library whose logistic regression fails to fit, the run ends after the random
  forest's pass and one more call.
\<close>

theorem library_failure_aborts_run_witness:
  "1 < length models \<and>
   models ! 1 = (''Logistic Regression'',
      \<lparr>cls = LogisticRegression, kwargs = [(''max_iter'', 1000), (''random_state'', 42)]\<rparr>) \<and>
   for_loop failing_sklearn 0 demo_prepared (take 1 models)
      \<lparr>accuracies = [], calls = [], stdout = []\<rparr> = (None, demo_first_pass) \<and>
   estimator_fit failing_sklearn 0
      \<lparr>cls = LogisticRegression, kwargs = [(''max_iter'', 1000), (''random_state'', 42)]\<rparr>
      (X_train_scaled demo_prepared) (y_train demo_prepared)
     = Inl (LibraryError ''ConvergenceError'') \<and>
   model_training failing_sklearn 0 demo_prepared
     = (Some (LibraryError ''ConvergenceError''),
        demo_first_pass\<lparr>calls := calls demo_first_pass @ [Fit ''Logistic Regression'']\<rparr>) \<and>
   raised (training_and_selection failing_sklearn 0 demo_prepared no_run)
     = Some (LibraryError ''ConvergenceError'') \<and>
   best (training_and_selection failing_sklearn 0 demo_prepared no_run) = None \<and>
   report (training_and_selection failing_sklearn 0 demo_prepared no_run)
     = [AccuracyLine ''Random Forest'' 0]"
proof -
  let ?lr = "\<lparr>cls = LogisticRegression,
             kwargs = [(''max_iter'', 1000), (''random_state'', 42)]\<rparr>"
  let ?e = "LibraryError ''ConvergenceError''"
  have k: "1 < length models" "models ! 1 = (''Logistic Regression'', ?lr)"
    by (simp_all add: models_def)
  have f: "for_loop failing_sklearn 0 demo_prepared (take 1 models)
      \<lparr>accuracies = [], calls = [], stdout = []\<rparr> = (None, demo_first_pass)"
    by (simp add: models_def loop_body_def estimator_fit_def accuracy_score_def
        failing_sklearn_def demo_sklearn_def demo_prepared_def demo_first_pass_def)
  have e: "estimator_fit failing_sklearn 0 ?lr (X_train_scaled demo_prepared) (y_train demo_prepared)
     = Inl ?e"
    by (simp add: estimator_fit_def failing_sklearn_def)
  from library_failure_aborts_run[OF k f disjI1[OF e], of no_run] obtain t where
    t: "model_training failing_sklearn 0 demo_prepared = (Some ?e, t)"
       "training_and_selection failing_sklearn 0 demo_prepared no_run
          = no_run\<lparr>raised := Some ?e, prep := Some demo_prepared, trained := Some t,
                    report := stdout t\<rparr>"
       "stdout t = stdout demo_first_pass"
    by blast
  have m: "model_training failing_sklearn 0 demo_prepared
     = (Some ?e, demo_first_pass\<lparr>calls := calls demo_first_pass @ [Fit ''Logistic Regression'']\<rparr>)"
    by (simp add: model_training_def models_def loop_body_def estimator_fit_def accuracy_score_def
        failing_sklearn_def demo_sklearn_def demo_prepared_def demo_first_pass_def)
  from t(2,3) have "raised (training_and_selection failing_sklearn 0 demo_prepared no_run) = Some ?e"
    "best (training_and_selection failing_sklearn 0 demo_prepared no_run) = None"
    "report (training_and_selection failing_sklearn 0 demo_prepared no_run)
       = [AccuracyLine ''Random Forest'' 0]"
    by (simp_all add: no_run_def demo_first_pass_def)
  with k f e m show ?thesis by simp
qed

subsection \<open>The pairwise plot\<close>

lemma load_cell_columns:
  assumes "load_cell ds = Inr df"
  shows "columns df = (if ''target'' \<in> set (feature_names ds) then feature_names ds
                       else feature_names ds @ [''target''])"
  using assms
  by (auto simp: load_cell_def DataFrame_def setitem_def split: sum.splits if_splits)

lemma training_and_selection_pairplot:
  "pairplot (training_and_selection L gs p r) = pairplot r"
  by (simp add: training_and_selection_def split: prod.splits option.splits sum.splits)

lemma notebook_pairplot:
  assumes "load_cell ds = Inr df"
  shows "pairplot (notebook L gs ds) = Some (eda_pairplot df)"
  using assms
  by (simp add: notebook_def Let_def no_run_def training_and_selection_pairplot split: sum.splits)

text \<open>
  Claim C10. The variables of the pairwise plot are the first five columns of the data
  frame in its column order, which for a dataset of at least five features are its
  first five features; the plot is coloured by the column \<^verbatim>\<open>target\<close>, which the
  data frame has.
\<close>

theorem pairplot_of_first_five_columns:
  assumes "load_cell ds = Inr df" and "5 \<le> length (feature_names ds)"
  shows "pairplot (notebook L gs ds) = Some (eda_pairplot df) \<and>
         vars (eda_pairplot df) = take 5 (columns df) \<and>
         vars (eda_pairplot df) = take 5 (feature_names ds) \<and>
         length (vars (eda_pairplot df)) = 5 \<and>
         hue (eda_pairplot df) = ''target'' \<and> ''target'' \<in> set (columns df)"
  using assms notebook_pairplot[OF assms(1), of L gs] load_cell_columns[OF assms(1)]
  by (simp add: eda_pairplot_def)

text \<open>The small run has six features: the sixth is not plotted.\<close>

theorem pairplot_of_first_five_columns_witness:
  "load_cell demo_bunch = Inr demo_frame \<and> 5 \<le> length (feature_names demo_bunch) \<and>
   pairplot (notebook demo_sklearn 0 demo_bunch)
     = Some \<lparr>vars = [''mean radius'', ''mean texture'', ''mean perimeter'', ''mean area'',
                      ''mean smoothness''],
             hue = ''target'', diag_kind = ''kde''\<rparr>"
proof -
  have n: "5 \<le> length (feature_names demo_bunch)" by (simp add: demo_bunch_def)
  from pairplot_of_first_five_columns[OF demo_load_cell n, of demo_sklearn 0]
  have "pairplot (notebook demo_sklearn 0 demo_bunch) = Some (eda_pairplot demo_frame)"
    by (rule conjunct1)
  with n show ?thesis by (simp add: demo_load_cell eda_pairplot_def demo_frame_def)
qed

end
